theory Spec2Isabelle
  imports Complex_Main
begin

section \<open>Numbers and vectors\<close>

text \<open>
  JavaScript numbers are modelled as \<^typ>\<open>real\<close>: the properties below are about
  control flow, guards and assignments, not about IEEE rounding; the evaluations use
  numbers that doubles hold exactly, and where a statement for all numbers is about a
  stored result of arithmetic (the cooldown slots), the arithmetic is a parameter. The
  operations of the
  rendering library's \<open>Vector3\<close> that the game code calls are written out here with
  the library's semantics. \<open>normalize\<close> is \<open>divideScalar(length() || 1)\<close> and
  \<open>divideScalar(s)\<close> is \<open>multiplyScalar(1 / s)\<close>: \<open>normalize_divisor\<close> is the number
  the library divides by.
\<close>

record vec3 =
  vx :: real
  vy :: real
  vz :: real

definition Vector3 :: "real \<Rightarrow> real \<Rightarrow> real \<Rightarrow> vec3" where
  "Vector3 a b c = \<lparr>vx = a, vy = b, vz = c\<rparr>"

definition subVectors :: "vec3 \<Rightarrow> vec3 \<Rightarrow> vec3" where
  "subVectors a b = Vector3 (vx a - vx b) (vy a - vy b) (vz a - vz b)"

definition addVectors :: "vec3 \<Rightarrow> vec3 \<Rightarrow> vec3" where
  "addVectors a b = Vector3 (vx a + vx b) (vy a + vy b) (vz a + vz b)"

definition multiplyScalar :: "vec3 \<Rightarrow> real \<Rightarrow> vec3" where
  "multiplyScalar v s = Vector3 (vx v * s) (vy v * s) (vz v * s)"

definition dot :: "vec3 \<Rightarrow> vec3 \<Rightarrow> real" where
  "dot a b = vx a * vx b + vy a * vy b + vz a * vz b"

definition vlength :: "vec3 \<Rightarrow> real" where
  "vlength v = sqrt (vx v * vx v + vy v * vy v + vz v * vz v)"

definition normalize_divisor :: "vec3 \<Rightarrow> real" where
  "normalize_divisor v = (if vlength v = 0 then 1 else vlength v)"

definition normalize_vec :: "vec3 \<Rightarrow> vec3" where
  "normalize_vec v = multiplyScalar v (1 / normalize_divisor v)"

definition crossVectors :: "vec3 \<Rightarrow> vec3 \<Rightarrow> vec3" where
  "crossVectors a b =
     Vector3 (vy a * vz b - vz a * vy b) (vz a * vx b - vx a * vz b) (vx a * vy b - vy a * vx b)"

definition distanceTo :: "vec3 \<Rightarrow> vec3 \<Rightarrow> real" where
  "distanceTo a b = vlength (subVectors a b)"

datatype js_error = TypeError string | WasmError string

datatype log_entry = Log string | Warn string | Error string


section \<open>Enemy types (EnemyTypes.js)\<close>

record enemy_config =
  cfg_id :: nat
  cfg_health :: real
  cfg_damage :: real
  cfg_speed :: real
  cfg_attackRange :: real
  cfg_attackRate :: real
  behaviorType :: string

definition GRUNT :: enemy_config where
  "GRUNT = \<lparr>cfg_id = 0, cfg_health = 100, cfg_damage = 10, cfg_speed = 5,
     cfg_attackRange = 2, cfg_attackRate = 1, behaviorType = ''chase''\<rparr>"

definition SNIPER :: enemy_config where
  "SNIPER = \<lparr>cfg_id = 1, cfg_health = 70, cfg_damage = 25, cfg_speed = 4,
     cfg_attackRange = 30, cfg_attackRate = 3, behaviorType = ''ranged''\<rparr>"

definition TANK :: enemy_config where
  "TANK = \<lparr>cfg_id = 2, cfg_health = 200, cfg_damage = 20, cfg_speed = 3,
     cfg_attackRange = 3, cfg_attackRate = 2, behaviorType = ''tank''\<rparr>"

definition SCOUT :: enemy_config where
  "SCOUT = \<lparr>cfg_id = 3, cfg_health = 60, cfg_damage = 8, cfg_speed = 8,
     cfg_attackRange = 5, cfg_attackRate = 1 / 2, behaviorType = ''scout''\<rparr>"

definition BOSS :: enemy_config where
  "BOSS = \<lparr>cfg_id = 4, cfg_health = 500, cfg_damage = 30, cfg_speed = 4,
     cfg_attackRange = 5, cfg_attackRate = 3 / 2, behaviorType = ''boss''\<rparr>"

text \<open>The object \<open>EnemyTypes\<close>, looked up by property name.\<close>

definition EnemyTypes :: "string \<Rightarrow> enemy_config option" where
  "EnemyTypes k =
     (if k = ''GRUNT'' then Some GRUNT
      else if k = ''SNIPER'' then Some SNIPER
      else if k = ''TANK'' then Some TANK
      else if k = ''SCOUT'' then Some SCOUT
      else if k = ''BOSS'' then Some BOSS
      else None)"


section \<open>Enemy (Enemy.js)\<close>

text \<open>
  The constructor's argument is a type name, a configuration object, or anything else
  that is neither a string nor an object (the enemy manager passes a numeric id). Two
  arguments are outside this type: \<open>null\<close>, on which the constructor throws, and a
  string that names a property every object inherits (such as \<open>constructor\<close>), which the
  lookup in \<open>EnemyTypes\<close> finds; \<open>TypeName s\<close> stands for any other string, and
  \<open>TypeObject c\<close> for an object with the fields of a configuration. A damage source is
  whatever the caller hands
  to \<open>takeDamage\<close>: its \<open>mesh.position\<close> when it has a mesh, its \<open>isPlayer\<close> flag and the
  weapon \<open>weapons[currentWeapon]\<close> when \<open>currentWeapon\<close> is set.
\<close>

datatype type_arg = TypeName string | TypeObject enemy_config | TypeOther

record source =
  src_mesh :: "vec3 option"
  src_isPlayer :: bool
  src_weapon :: "string option"

record kill_event =
  ev_source :: "source option"
  ev_weapon :: "string option"
  ev_position :: vec3
  ev_type :: type_arg
  ev_points :: int

text \<open>
  The game engine as the enemy sees it: which collaborators are present, and what has
  been handed to them so far (sounds played, blood splatters created, \<open>enemyKilled\<close>
  events emitted, the kill counter of the player metrics).
\<close>

record game_engine =
  audioManager :: bool
  particleSystem :: bool
  events :: bool
  playerMetrics :: "nat option"
  sounds :: "(string \<times> real) list"
  splatters :: "(vec3 \<times> vec3) list"
  emitted :: "kill_event list"

record enemy =
  health :: real
  maxHealth :: real
  speed :: real
  turnSpeed :: real
  damage :: real
  attackRange :: real
  sightRange :: real
  hearingRange :: real
  attackCooldown :: real
  lastAttackTime :: real
  isAlive :: bool
  isAware :: bool
  state :: string
  stateTime :: real
  target :: "source option"
  lastKnownTargetPosition :: vec3
  currentPatrolIndex :: nat
  searchTime :: real
  etype :: type_arg
  mesh_position :: vec3
  enemyType :: "enemy_config option"
  takeCover :: bool
  flanking :: bool
  callReinforcements :: bool
  pathfindingTimer :: real
  velocity :: vec3
  pointValue :: real
  wasKilledByPlayer :: bool
  gameEngine :: "game_engine option"
  removalTimers :: "nat list"

text \<open>
  \<open>configureEnemyType\<close>: an unknown name and a non-string, non-object argument fall
  back to GRUNT; the switch on \<open>behaviorType\<close> sets ranges and behaviour flags.
\<close>

definition resolveEnemyType :: "type_arg \<Rightarrow> enemy_config" where
  "resolveEnemyType t =
     (case t of
        TypeName s \<Rightarrow> (case EnemyTypes s of None \<Rightarrow> GRUNT | Some c \<Rightarrow> c)
      | TypeObject c \<Rightarrow> c
      | TypeOther \<Rightarrow> GRUNT)"

definition configureEnemyType :: "type_arg \<Rightarrow> enemy \<Rightarrow> enemy" where
  "configureEnemyType t e =
     (let c = resolveEnemyType t;
          e1 = e\<lparr>enemyType := Some c, health := cfg_health c, maxHealth := cfg_health c,
                 damage := cfg_damage c, speed := cfg_speed c,
                 attackRange := cfg_attackRange c, attackCooldown := cfg_attackRate c\<rparr>
      in if behaviorType c = ''ranged'' then
           e1\<lparr>sightRange := 30, hearingRange := 20, takeCover := True\<rparr>
         else if behaviorType c = ''tank'' then
           e1\<lparr>turnSpeed := 2, hearingRange := 10\<rparr>
         else if behaviorType c = ''scout'' then
           e1\<lparr>sightRange := 25, hearingRange := 25, flanking := True\<rparr>
         else if behaviorType c = ''boss'' then
           e1\<lparr>sightRange := 40, hearingRange := 30, callReinforcements := True\<rparr>
         else e1)"

text \<open>
  The constructor, statement by statement. Fields the source has not assigned yet when
  \<open>configureEnemyType\<close> runs (the three behaviour flags among them) are \<open>undefined\<close>
  there; the record gives them the value the constructor assigns later, which is the
  value they have when it returns. \<open>createMesh\<close> is asynchronous: it builds the mesh
  synchronously and suspends at its first \<open>await\<close>, so \<open>calculatePointValue\<close> runs
  after the constructor has returned (\<open>createMesh_resume\<close>).
\<close>

definition Enemy_fields :: "type_arg \<Rightarrow> enemy" where
  "Enemy_fields t =
     \<lparr>health = 100, maxHealth = 100, speed = 3, turnSpeed = 3, damage = 10,
      attackRange = 2, sightRange = 20, hearingRange = 15, attackCooldown = 1,
      lastAttackTime = 0, isAlive = True, isAware = False, state = ''idle'',
      stateTime = 0, target = None, lastKnownTargetPosition = Vector3 0 0 0,
      currentPatrolIndex = 0, searchTime = 0, etype = t,
      mesh_position = Vector3 0 0 0, enemyType = None,
      takeCover = False, flanking = False, callReinforcements = False,
      pathfindingTimer = 0, velocity = Vector3 0 0 0, pointValue = 0,
      wasKilledByPlayer = False, gameEngine = None, removalTimers = []\<rparr>"

definition Enemy_constructor :: "type_arg \<Rightarrow> enemy" where
  "Enemy_constructor t =
     (let e = configureEnemyType t (Enemy_fields t)
      in e\<lparr>takeCover := False, flanking := False, callReinforcements := False,
            pathfindingTimer := 0, velocity := Vector3 0 0 0, pointValue := 0,
            wasKilledByPlayer := False\<rparr>)"

definition basePoints :: "type_arg \<Rightarrow> real option" where
  "basePoints t =
     (case t of
        TypeName s \<Rightarrow>
          (if s = ''GRUNT'' then Some 50
           else if s = ''SNIPER'' then Some 100
           else if s = ''TANK'' then Some 150
           else if s = ''SCOUT'' then Some 125
           else if s = ''BOSS'' then Some 500
           else None)
      | _ \<Rightarrow> None)"

definition calculatePointValue :: "enemy \<Rightarrow> enemy" where
  "calculatePointValue e =
     e\<lparr>pointValue := (case basePoints (etype e) of None \<Rightarrow> 50 | Some p \<Rightarrow> p)\<rparr>"

definition createMesh_resume :: "enemy \<Rightarrow> enemy" where
  "createMesh_resume e = calculatePointValue e"

definition setGameEngine :: "game_engine \<Rightarrow> enemy \<Rightarrow> enemy" where
  "setGameEngine g e = e\<lparr>gameEngine := Some g\<rparr>"

text \<open>\<open>getPointValue\<close>: base value, +20% when aware, +30% when above 90% health.\<close>

definition getPointValue :: "enemy \<Rightarrow> int" where
  "getPointValue e =
     (let points = pointValue e;
          bonus1 = (if isAware e then points * (2 / 10) else 0);
          bonus2 = (if health e > maxHealth e * (9 / 10) then points * (3 / 10) else 0)
      in \<lfloor>points + (bonus1 + bonus2)\<rfloor>)"

definition getHitDirection :: "source option \<Rightarrow> enemy \<Rightarrow> vec3" where
  "getHitDirection src e =
     (case src of
        None \<Rightarrow> Vector3 0 0 1
      | Some s \<Rightarrow>
          (case src_mesh s of
             None \<Rightarrow> Vector3 0 0 1
           | Some p \<Rightarrow> normalize_vec (subVectors (mesh_position e) p)))"

definition isPlayerSource :: "source option \<Rightarrow> bool" where
  "isPlayerSource src = (case src of None \<Rightarrow> False | Some s \<Rightarrow> src_isPlayer s)"

text \<open>
  \<open>die\<close>: marks the enemy dead, plays the sound, creates the splatter, emits the
  \<open>enemyKilled\<close> event carrying \<open>getPointValue()\<close>, counts the kill and schedules the
  removal of the mesh after 10000 ms. It has no guard of its own.
\<close>

definition die_engine :: "source option \<Rightarrow> enemy \<Rightarrow> game_engine \<Rightarrow> game_engine" where
  "die_engine src e g =
     (let dir = getHitDirection src e;
          g1 = (if audioManager g then g\<lparr>sounds := sounds g @ [(''enemy_death'', 8 / 10)]\<rparr>
                else g);
          g2 = (if particleSystem g1 then
                  g1\<lparr>splatters := splatters g1 @
                      [(addVectors (mesh_position e) (Vector3 0 1 0), multiplyScalar dir (- 1))]\<rparr>
                else g1);
          g3 = (if events g2 then
                  g2\<lparr>emitted := emitted g2 @
                      [\<lparr>ev_source = src,
                        ev_weapon = (case src of None \<Rightarrow> None | Some s \<Rightarrow> src_weapon s),
                        ev_position = mesh_position e,
                        ev_type = etype e,
                        ev_points = getPointValue e\<rparr>]\<rparr>
                else g2)
      in if isPlayerSource src then
           g3\<lparr>playerMetrics := map_option Suc (playerMetrics g3)\<rparr>
         else g3)"

definition die :: "source option \<Rightarrow> enemy \<Rightarrow> enemy" where
  "die src e =
     (let e1 = e\<lparr>isAlive := False, state := ''dead''\<rparr>;
          e2 = (if isPlayerSource src then e1\<lparr>wasKilledByPlayer := True\<rparr> else e1);
          e3 = e2\<lparr>gameEngine := map_option (die_engine src e2) (gameEngine e2)\<rparr>
      in e3\<lparr>removalTimers := removalTimers e3 @ [10000]\<rparr>)"

text \<open>
  \<open>takeDamage\<close>: subtracts the amount, makes an unaware enemy chase a given source,
  and calls \<open>die\<close> when health is at or below zero. A source without a mesh makes
  \<open>source.mesh.position\<close> throw after the first three assignments; the enemy keeps
  them, and the error is returned beside it.
\<close>

definition checkDead :: "source option \<Rightarrow> enemy \<Rightarrow> enemy" where
  "checkDead src e = (if health e \<le> 0 then die src e else e)"

definition takeDamage :: "real \<Rightarrow> source option \<Rightarrow> enemy \<Rightarrow> js_error option \<times> enemy" where
  "takeDamage amount src e =
     (let e1 = e\<lparr>health := health e - amount\<rparr>
      in case src of
           None \<Rightarrow> (None, checkDead src e1)
         | Some s \<Rightarrow>
             (if \<not> isAware e1 then
                (let e2 = e1\<lparr>isAware := True, target := Some s, state := ''chase''\<rparr>
                 in case src_mesh s of
                      None \<Rightarrow> (Some (TypeError ''source.mesh is undefined''), e2)
                    | Some p \<Rightarrow> (None, checkDead src (e2\<lparr>lastKnownTargetPosition := p\<rparr>)))
              else (None, checkDead src e1)))"

text \<open>
  A sequence of \<open>takeDamage\<close> calls on one enemy, each on the enemy as the call
  before left it (also when that call threw).
\<close>

fun takeDamages :: "(real \<times> source option) list \<Rightarrow> enemy \<Rightarrow> enemy" where
  "takeDamages [] e = e"
| "takeDamages ((a, s) # hits) e = takeDamages hits (snd (takeDamage a s e))"


section \<open>The interface to the accelerated backend (wasm-interface.js)\<close>

text \<open>
  The compiled module is not part of the JavaScript sources: what it exports is a
  parameter. \<open>physics_exports\<close> says whether \<open>Vector3\<close> and \<open>PhysicsSystem\<close> are both
  exported; \<open>apply_gravity\<close> is the exported function, which returns the updated
  position and velocity or throws.
\<close>

record wasm_module =
  physics_exports :: bool
  apply_gravity :: "vec3 \<Rightarrow> vec3 \<Rightarrow> real \<Rightarrow> js_error + vec3 \<times> vec3"

text \<open>
  A pathfinder object: an optional native \<open>find_path\<close> and the \<open>findPath\<close> of
  \<open>createMockPathfinder\<close>.
\<close>

record pathfinder =
  find_path :: "(int \<Rightarrow> int \<Rightarrow> int \<Rightarrow> int \<Rightarrow> js_error + bool) option"
  has_findPath :: bool

record wasm_interface =
  isLoaded :: bool
  physicsSystem :: bool
  wi_pathfinder :: "pathfinder option"
  wasmModule :: "wasm_module option"

definition WasmInterface_constructor :: wasm_interface where
  "WasmInterface_constructor =
     \<lparr>isLoaded = False, physicsSystem = False, wi_pathfinder = None, wasmModule = None\<rparr>"

definition createMockPathfinder :: pathfinder where
  "createMockPathfinder = \<lparr>find_path = None, has_findPath = True\<rparr>"

definition initFallback :: "wasm_interface \<Rightarrow> wasm_interface" where
  "initFallback w =
     w\<lparr>physicsSystem := True, wi_pathfinder := Some createMockPathfinder, isLoaded := True\<rparr>"

text \<open>\<open>createMockPhysicsSystem().applyGravity\<close>: Euler step and ground clamp on the two vectors.\<close>

definition mock_applyGravity :: "vec3 \<Rightarrow> vec3 \<Rightarrow> real \<Rightarrow> vec3 \<times> vec3" where
  "mock_applyGravity pos vel deltaTime =
     (let vel1 = vel\<lparr>vy := vy vel - (98 / 10) * deltaTime\<rparr>;
          pos1 = pos\<lparr>vy := vy pos + vy vel1 * deltaTime\<rparr>
      in if vy pos1 < 0 then (pos1\<lparr>vy := 0\<rparr>, vel1\<lparr>vy := 0\<rparr>) else (pos1, vel1))"

definition native_available :: "wasm_interface \<Rightarrow> bool" where
  "native_available w =
     (case wasmModule w of None \<Rightarrow> False | Some m \<Rightarrow> physics_exports m)"

definition WasmInterface_applyGravity ::
  "wasm_interface \<Rightarrow> vec3 \<Rightarrow> vec3 \<Rightarrow> real \<Rightarrow> (vec3 \<times> vec3) \<times> log_entry list" where
  "WasmInterface_applyGravity w pos vel deltaTime =
     (if physicsSystem w then
        (case wasmModule w of
           None \<Rightarrow> (mock_applyGravity pos vel deltaTime, [])
         | Some m \<Rightarrow>
             (if physics_exports m then
                (case apply_gravity m pos vel deltaTime of
                   Inr pv \<Rightarrow> (pv, [])
                 | Inl err \<Rightarrow>
                     (mock_applyGravity pos vel deltaTime,
                      [Warn ''Error using WebAssembly Vector3, falling back to JS implementation'']))
              else (mock_applyGravity pos vel deltaTime, [])))
      else ((pos, vel), []))"




section \<open>Physics (PhysicsSystem.js)\<close>

text \<open>
  A mesh is its position, the radius of its geometry's bounding sphere (absent for a
  mesh without geometry, such as a group) and its scale. An entity of the game engine
  may lack a mesh or a velocity; \<open>onGround\<close> is \<open>undefined\<close> until physics writes it;
  \<open>onCollision\<close> says whether the entity has a collision callback.
\<close>

record mesh =
  position :: vec3
  geometry :: "real option"
  scale :: vec3

record entity =
  ent_mesh :: "mesh option"
  ent_velocity :: "vec3 option"
  isStatic :: bool
  onGround :: "bool option"
  bouncy :: bool
  restitution :: "real option"
  onCollision :: bool

text \<open>
  The physics system: its gravity constant, the accelerated interface if the load has
  finished, and the game engine's entity list if an engine is attached. A collision
  callback \<open>a.onCollision(b)\<close> is recorded as the pair of list indices \<open>(a, b)\<close>.
\<close>

record physics_system =
  gravity :: real
  wasmInterface :: "wasm_interface option"
  entities :: "entity list option"
  callbacks :: "(nat \<times> nat) list"
  console :: "log_entry list"

definition PhysicsSystem_constructor :: physics_system where
  "PhysicsSystem_constructor =
     \<lparr>gravity = 98 / 10, wasmInterface = None, entities = None, callbacks = [], console = []\<rparr>"

definition boundingRadius :: "mesh \<Rightarrow> real \<Rightarrow> real" where
  "boundingRadius m r = r * max (max (vx (scale m)) (vy (scale m))) (vz (scale m))"

definition checkCollision :: "mesh \<Rightarrow> mesh \<Rightarrow> bool" where
  "checkCollision meshA meshB =
     (case (geometry meshA, geometry meshB) of
        (Some ra, Some rb) \<Rightarrow>
          distanceTo (position meshA) (position meshB)
            < boundingRadius meshA ra + boundingRadius meshB rb
      | _ \<Rightarrow> False)"

definition calculateMinimumTranslationVector :: "mesh \<Rightarrow> mesh \<Rightarrow> vec3 option" where
  "calculateMinimumTranslationVector meshA meshB =
     (case (geometry meshA, geometry meshB) of
        (Some ra, Some rb) \<Rightarrow>
          (let direction = normalize_vec (subVectors (position meshA) (position meshB));
               distance = distanceTo (position meshA) (position meshB);
               overlap = (boundingRadius meshA ra + boundingRadius meshB rb) - distance
           in if overlap > 0 then Some (multiplyScalar direction overlap) else None)
      | _ \<Rightarrow> None)"

definition removeVelocityComponent :: "vec3 \<Rightarrow> vec3 \<Rightarrow> vec3" where
  "removeVelocityComponent vel normal =
     (if dot vel normal < 0 then subVectors vel (multiplyScalar normal (dot vel normal))
      else vel)"

definition restitutionOr :: "real option \<Rightarrow> real" where
  "restitutionOr r = (case r of None \<Rightarrow> 3 / 10 | Some v \<Rightarrow> if v = 0 then 3 / 10 else v)"

text \<open>One iteration of the loop over nearby static objects, on the entity's mesh and velocity.\<close>

definition resolveStatic :: "bool \<Rightarrow> real option \<Rightarrow> mesh \<Rightarrow> mesh \<times> vec3 \<Rightarrow> mesh \<times> vec3" where
  "resolveStatic bncy rest obj mv =
     (let m = fst mv; vel = snd mv
      in if checkCollision m obj then
           (case calculateMinimumTranslationVector m obj of
              None \<Rightarrow> (m, vel)
            | Some mtv \<Rightarrow>
                (let m1 = m\<lparr>position := addVectors (position m) mtv\<rparr>;
                     n = normalize_vec mtv
                 in if bncy then
                      (m1, multiplyScalar (subVectors vel (multiplyScalar n (2 * dot vel n)))
                             (restitutionOr rest))
                    else (m1, removeVelocityComponent vel n)))
         else (m, vel))"

text \<open>
  The static objects of the engine other than the entity itself (entity \<open>i\<close> of the
  list), those within 5 units of it, in list order.
\<close>

definition nearbyObjects :: "entity list \<Rightarrow> nat \<Rightarrow> mesh \<Rightarrow> mesh list" where
  "nearbyObjects es i m =
     concat (map (\<lambda>j. if j \<noteq> i \<and> isStatic (es ! j) then
                         (case ent_mesh (es ! j) of
                            None \<Rightarrow> []
                          | Some om \<Rightarrow> if distanceTo (position m) (position om) < 5 then [om] else [])
                       else [])
                 [0..<length es])"

definition handleStaticCollisions :: "entity list \<Rightarrow> nat \<Rightarrow> entity \<Rightarrow> entity" where
  "handleStaticCollisions es i e =
     (case (ent_mesh e, ent_velocity e) of
        (Some m, Some vel) \<Rightarrow>
          (let mv = fold (resolveStatic (bouncy e) (restitution e)) (nearbyObjects es i m) (m, vel)
           in e\<lparr>ent_mesh := Some (fst mv), ent_velocity := Some (snd mv)\<rparr>)
      | _ \<Rightarrow> e)"

text \<open>
  Gravity and movement of one entity: through the accelerated interface when it is
  loaded, otherwise the software step, which also writes \<open>onGround\<close>.
\<close>

definition applyGravityStep ::
  "physics_system \<Rightarrow> real \<Rightarrow> entity \<Rightarrow> entity \<times> log_entry list" where
  "applyGravityStep ps deltaTime e =
     (case (ent_mesh e, ent_velocity e) of
        (Some m, Some vel) \<Rightarrow>
          (let accel = (case wasmInterface ps of
                          None \<Rightarrow> None
                        | Some w \<Rightarrow> if isLoaded w then Some w else None)
           in case accel of
                Some w \<Rightarrow>
                  (let r = WasmInterface_applyGravity w (position m) vel deltaTime
                   in (e\<lparr>ent_mesh := Some (m\<lparr>position := fst (fst r)\<rparr>),
                         ent_velocity := Some (snd (fst r))\<rparr>, snd r))
              | None \<Rightarrow>
                  (let vel1 = vel\<lparr>vy := vy vel - gravity ps * deltaTime\<rparr>;
                       pos1 = (position m)\<lparr>vy := vy (position m) + vy vel1 * deltaTime\<rparr>
                   in if vy pos1 < 0 then
                        (e\<lparr>ent_mesh := Some (m\<lparr>position := pos1\<lparr>vy := 0\<rparr>\<rparr>),
                           ent_velocity := Some (vel1\<lparr>vy := 0\<rparr>), onGround := Some True\<rparr>, [])
                      else
                        (e\<lparr>ent_mesh := Some (m\<lparr>position := pos1\<rparr>),
                           ent_velocity := Some vel1, onGround := Some False\<rparr>, [])))
      | _ \<Rightarrow> (e, []))"

definition processEntity ::
  "physics_system \<Rightarrow> real \<Rightarrow> nat \<Rightarrow> entity list \<times> log_entry list \<Rightarrow> entity list \<times> log_entry list" where
  "processEntity ps deltaTime i st =
     (let es = fst st;
          r = applyGravityStep ps deltaTime (es ! i);
          es1 = es[i := fst r]
      in (es1[i := handleStaticCollisions es1 i (es1 ! i)], snd st @ snd r))"

text \<open>All pairs \<open>(xs ! i, xs ! j)\<close> with \<open>i < j\<close>, in the order of the two nested loops.\<close>

fun pairs :: "'a list \<Rightarrow> ('a \<times> 'a) list" where
  "pairs [] = []"
| "pairs (a # bs) = map (Pair a) bs @ pairs bs"

definition resolveDynamicCollision :: "entity list \<Rightarrow> nat \<times> nat \<Rightarrow> (nat \<times> nat) list" where
  "resolveDynamicCollision es ab =
     (if onCollision (es ! fst ab) then [(fst ab, snd ab)] else []) @
     (if onCollision (es ! snd ab) then [(snd ab, fst ab)] else [])"

definition handleDynamicCollisions :: "entity list \<Rightarrow> nat list \<Rightarrow> (nat \<times> nat) list" where
  "handleDynamicCollisions es batch =
     concat (map (\<lambda>ab. case (ent_mesh (es ! fst ab), ent_mesh (es ! snd ab)) of
                          (Some ma, Some mb) \<Rightarrow>
                            if checkCollision ma mb then resolveDynamicCollision es ab else []
                        | _ \<Rightarrow> [])
                 (pairs batch))"

definition processPhysicsBatch :: "real \<Rightarrow> nat list \<Rightarrow> physics_system \<Rightarrow> physics_system" where
  "processPhysicsBatch deltaTime batch ps =
     (case entities ps of
        None \<Rightarrow> ps
      | Some es \<Rightarrow>
          (let st = fold (processEntity ps deltaTime) batch (es, [])
           in ps\<lparr>entities := Some (fst st),
                 callbacks := callbacks ps @ handleDynamicCollisions (fst st) batch,
                 console := console ps @ snd st\<rparr>))"

text \<open>
  \<open>update\<close>: the indices of the entities with a mesh and a velocity, cut into
  \<open>ceil(n / 10)\<close> slices of \<open>batchSize = 10\<close>, each handed to \<open>_processPhysicsBatch\<close>.
\<close>

definition physicsEntities :: "entity list \<Rightarrow> nat list" where
  "physicsEntities es =
     filter (\<lambda>i. ent_mesh (es ! i) \<noteq> None \<and> ent_velocity (es ! i) \<noteq> None) [0..<length es]"

definition batchSlices :: "nat list \<Rightarrow> nat list list" where
  "batchSlices xs =
     map (\<lambda>b. take (min ((b + 1) * 10) (length xs) - b * 10) (drop (b * 10) xs))
         [0..<(length xs + 9) div 10]"

definition PhysicsSystem_update :: "real \<Rightarrow> physics_system \<Rightarrow> physics_system" where
  "PhysicsSystem_update deltaTime ps =
     (case entities ps of
        None \<Rightarrow> ps
      | Some es \<Rightarrow> fold (processPhysicsBatch deltaTime) (batchSlices (physicsEntities es)) ps)"

fun ticks :: "nat \<Rightarrow> real \<Rightarrow> physics_system \<Rightarrow> physics_system" where
  "ticks 0 deltaTime ps = ps"
| "ticks (Suc n) deltaTime ps = ticks n deltaTime (PhysicsSystem_update deltaTime ps)"

section \<open>Behaviour trees and path finding (AISystem.js)\<close>

text \<open>
  Modelled from the spec: the class \<open>BehaviorContext\<close> of the compiled module, which is
  not among the sources. The spec gives it the entity position, the target position,
  health and maxHealth, and named float values (the target-visible flag, the numbered
  cooldown slots, the output action code and its float parameter); \<open>get_value\<close> reads
  a named value and \<open>set_value\<close> stores one. A value never stored reads as 0.
\<close>

record behavior_context =
  entity_position :: vec3
  target_position :: vec3
  entity_health :: real
  entity_maxHealth :: real
  ctx_values :: "string \<Rightarrow> real"

definition BehaviorContext_new :: behavior_context where
  "BehaviorContext_new =
     \<lparr>entity_position = Vector3 0 0 0, target_position = Vector3 0 0 0,
      entity_health = 0, entity_maxHealth = 0, ctx_values = (\<lambda>k. 0)\<rparr>"

definition get_value :: "behavior_context \<Rightarrow> string \<Rightarrow> real" where
  "get_value c k = ctx_values c k"

definition set_value :: "behavior_context \<Rightarrow> string \<Rightarrow> real \<Rightarrow> behavior_context" where
  "set_value c k v = c\<lparr>ctx_values := (ctx_values c)(k := v)\<rparr>"

definition set_entity_position :: "behavior_context \<Rightarrow> vec3 \<Rightarrow> behavior_context" where
  "set_entity_position c p = c\<lparr>entity_position := p\<rparr>"

definition set_target_position :: "behavior_context \<Rightarrow> vec3 \<Rightarrow> behavior_context" where
  "set_target_position c p = c\<lparr>target_position := p\<rparr>"

definition set_entity_health :: "behavior_context \<Rightarrow> real \<Rightarrow> real \<Rightarrow> behavior_context" where
  "set_entity_health c h m = c\<lparr>entity_health := h, entity_maxHealth := m\<rparr>"

text \<open>
  A tree object: its \<open>evaluate\<close> method, if it has one. The method is called with a
  context (it returns a result code or throws, and leaves the context as it wrote it)
  or with no argument.
\<close>

record tree_method =
  call_with :: "behavior_context \<Rightarrow> (js_error + real) \<times> behavior_context"
  call_without :: "js_error + real"

record behavior_tree =
  evaluate :: "tree_method option"

text \<open>
  \<open>createMockBehaviorTree().evaluate\<close>, with the values \<open>Math.random()\<close> returns
  (numbers from 0 up to, not including, 1) as parameters, in call order; \<open>mock_results\<close>
  is the array \<open>[0, 1, 2]\<close> on its indices.
\<close>

definition mock_results :: "int \<Rightarrow> real" where
  "mock_results i = (if i = 0 then 0 else if i = 1 then 1 else 2)"

definition createMockBehaviorTree :: "real \<Rightarrow> real \<Rightarrow> real \<Rightarrow> behavior_tree" where
  "createMockBehaviorTree r1 r2 r3 =
     \<lparr>evaluate = Some
        \<lparr>call_with = (\<lambda>c. (Inr (mock_results \<lfloor>r3 * 3\<rfloor>),
                           set_value (set_value c ''action'' (of_int \<lfloor>r1 * 3\<rfloor>))
                             ''action_parameter'' (r2 * 10))),
         call_without = Inr (mock_results \<lfloor>r1 * 3\<rfloor>)\<rparr>\<rparr>"

text \<open>
  \<open>WasmInterface.evaluateBehaviorTree\<close>: with a module, the call is inside
  \<open>try\<close>/\<open>catch\<close> and a throw becomes the result 0 and a warning; without a module the
  tree is called with no argument and outside any \<open>try\<close>.
\<close>

definition WasmInterface_evaluateBehaviorTree ::
  "wasm_interface \<Rightarrow> behavior_tree option \<Rightarrow> behavior_context
     \<Rightarrow> (js_error + real) \<times> behavior_context \<times> log_entry list" where
  "WasmInterface_evaluateBehaviorTree w tree c =
     (case (case tree of None \<Rightarrow> None | Some t \<Rightarrow> evaluate t) of
        None \<Rightarrow> (Inr 0, c, [Warn ''Invalid behavior tree provided''])
      | Some ev \<Rightarrow>
          (case wasmModule w of
             Some m \<Rightarrow>
               (case fst (call_with ev c) of
                  Inr r \<Rightarrow> (Inr r, snd (call_with ev c), [])
                | Inl err \<Rightarrow>
                    (Inr 0, snd (call_with ev c),
                     [Warn ''Error evaluating behavior tree, using fallback'']))
           | None \<Rightarrow> (call_without ev, c, [])))"

text \<open>
  The ray caster of the rendering library, on a level mesh that is a group of triangle
  meshes (floor, walls and obstacles, as the levels of the game build it; groups and
  lights have no geometry and are never hit). \<open>Mesh.raycast\<close> first tests the ray
  against the bounding sphere and box of the mesh, which can only discard triangles
  (\<open>broadPhase\<close>, a parameter), then tests each triangle with \<open>Ray.intersectTriangle\<close>
  and keeps a hit whose distance from the origin lies between \<open>near\<close> and \<open>far\<close>.
  Triangles are in world coordinates; \<open>backfaceCulling\<close> is set for a one-sided
  material.
\<close>

record triangle =
  tri_a :: vec3
  tri_b :: vec3
  tri_c :: vec3
  backfaceCulling :: bool

record level_mesh =
  triangles :: "triangle list"
  broadPhase :: "vec3 \<Rightarrow> vec3 \<Rightarrow> real \<Rightarrow> real \<Rightarrow> triangle \<Rightarrow> bool"

text \<open>
  \<open>Ray.intersectTriangle\<close>, after the sign of \<open>direction . normal\<close> has been taken:
  the barycentric tests, then the point \<open>origin + direction * (QdN / DdN)\<close>.
\<close>

definition triangleHit :: "vec3 \<Rightarrow> vec3 \<Rightarrow> triangle \<Rightarrow> real \<Rightarrow> real \<Rightarrow> vec3 option" where
  "triangleHit origin direction t sg DdN =
     (let edge1 = subVectors (tri_b t) (tri_a t);
          edge2 = subVectors (tri_c t) (tri_a t);
          normal = crossVectors edge1 edge2;
          diff = subVectors origin (tri_a t);
          DdQxE2 = sg * dot direction (crossVectors diff edge2)
      in if DdQxE2 < 0 then None
         else
           (let DdE1xQ = sg * dot direction (crossVectors edge1 diff)
            in if DdE1xQ < 0 then None
               else if DdQxE2 + DdE1xQ > DdN then None
               else
                 (let QdN = - sg * dot diff normal
                  in if QdN < 0 then None
                     else Some (addVectors origin (multiplyScalar direction (QdN / DdN))))))"

definition intersectTriangle :: "vec3 \<Rightarrow> vec3 \<Rightarrow> triangle \<Rightarrow> vec3 option" where
  "intersectTriangle origin direction t =
     (let edge1 = subVectors (tri_b t) (tri_a t);
          edge2 = subVectors (tri_c t) (tri_a t);
          normal = crossVectors edge1 edge2;
          DdN = dot direction normal
      in if DdN > 0 then
           (if backfaceCulling t then None else triangleHit origin direction t 1 DdN)
         else if DdN < 0 then triangleHit origin direction t (- 1) (- DdN)
         else None)"

definition intersectObject ::
  "level_mesh \<Rightarrow> vec3 \<Rightarrow> vec3 \<Rightarrow> real \<Rightarrow> real \<Rightarrow> (triangle \<times> vec3) list" where
  "intersectObject lvl origin direction near far =
     concat (map (\<lambda>t. if broadPhase lvl origin direction near far t then
                         (case intersectTriangle origin direction t of
                            None \<Rightarrow> []
                          | Some p \<Rightarrow>
                              if distanceTo origin p < near \<or> distanceTo origin p > far then []
                              else [(t, p)])
                       else [])
                 (triangles lvl))"

text \<open>
  The AI system. Of the game engine it uses the level mesh only; the level is absent
  until one is set. The two JavaScript maps are association lists in insertion order.
\<close>

record ai_engine =
  level :: "level_mesh option"

record ai_system =
  ai_gameEngine :: "ai_engine option"
  ai_wasmInterface :: "wasm_interface option"
  behaviorTrees :: "(nat \<times> behavior_tree) list"
  behaviorContexts :: "(nat \<times> behavior_context) list"
  ai_console :: "log_entry list"

definition AISystem_constructor :: ai_system where
  "AISystem_constructor =
     \<lparr>ai_gameEngine = None, ai_wasmInterface = None, behaviorTrees = [],
      behaviorContexts = [], ai_console = []\<rparr>"

fun string_of_nat :: "nat \<Rightarrow> string" where
  "string_of_nat n =
     (if n < 10 then [char_of (48 + n)]
      else string_of_nat (n div 10) @ [char_of (48 + n mod 10)])"

definition cooldownKey :: "nat \<Rightarrow> string" where
  "cooldownKey i = ''cooldown_'' @ string_of_nat i"

text \<open>
  \<open>update\<close>: the ten cooldown slots of every context. The stored values and
  \<open>deltaTime\<close> are double-precision numbers, and the difference the code stores is the
  rounded one: the subtraction of numbers is the parameter \<open>subtract\<close>.
\<close>

definition updateCooldown ::
  "(real \<Rightarrow> real \<Rightarrow> real) \<Rightarrow> real \<Rightarrow> nat \<Rightarrow> behavior_context \<Rightarrow> behavior_context" where
  "updateCooldown subtract deltaTime i c =
     (let cooldownValue = get_value c (cooldownKey i)
      in if cooldownValue > 0 then set_value c (cooldownKey i) (subtract cooldownValue deltaTime)
         else c)"

definition updateCooldowns ::
  "(real \<Rightarrow> real \<Rightarrow> real) \<Rightarrow> real \<Rightarrow> behavior_context \<Rightarrow> behavior_context" where
  "updateCooldowns subtract deltaTime c = fold (updateCooldown subtract deltaTime) [1..<11] c"

definition AISystem_update :: "(real \<Rightarrow> real \<Rightarrow> real) \<Rightarrow> real \<Rightarrow> ai_system \<Rightarrow> ai_system" where
  "AISystem_update subtract deltaTime sys =
     sys\<lparr>behaviorContexts :=
           map (\<lambda>kc. (fst kc, updateCooldowns subtract deltaTime (snd kc))) (behaviorContexts sys)\<rparr>"

text \<open>
  \<open>hasLineOfSight\<close>: false without a game engine; otherwise a ray from the first point
  along the normalised difference, as long as the distance. Reading \<open>level.mesh\<close> of a
  game engine without a level throws.
\<close>

definition hasLineOfSight :: "ai_system \<Rightarrow> vec3 \<Rightarrow> vec3 \<Rightarrow> js_error + bool" where
  "hasLineOfSight sys fromPosition toPosition =
     (case ai_gameEngine sys of
        None \<Rightarrow> Inr False
      | Some g \<Rightarrow>
          (let direction = subVectors toPosition fromPosition;
               distance = vlength direction
           in case level g of
                None \<Rightarrow> Inl (TypeError ''gameEngine.level is null'')
              | Some lvl \<Rightarrow>
                  Inr (intersectObject lvl fromPosition (normalize_vec direction) 0 distance = [])))"

definition loadedInterface :: "ai_system \<Rightarrow> wasm_interface option" where
  "loadedInterface sys =
     (case ai_wasmInterface sys of
        None \<Rightarrow> None
      | Some w \<Rightarrow> if isLoaded w then Some w else None)"



text \<open>
  \<open>evaluateBehaviorTree\<close>: refreshes the entity's context, asks the interface for the
  result code and reads action and parameter back from the context; without a loaded
  interface, a tree or a context it returns the fixed record \<open>{1, 0, 5}\<close>.
\<close>

record bt_result =
  result :: real
  action :: real
  parameter :: real

definition refreshContext ::
  "ai_system \<Rightarrow> vec3 \<Rightarrow> vec3 option \<Rightarrow> real \<Rightarrow> real \<Rightarrow> behavior_context
     \<Rightarrow> js_error + behavior_context" where
  "refreshContext sys pos targetPosition h m c =
     (let c1 = set_entity_position c pos;
          c2 = (case targetPosition of None \<Rightarrow> c1 | Some t \<Rightarrow> set_target_position c1 t);
          c3 = set_entity_health c2 h m;
          visible = (case targetPosition of
                       None \<Rightarrow> Inr False
                     | Some t \<Rightarrow>
                         (case ai_gameEngine sys of
                            None \<Rightarrow> Inr False
                          | Some g \<Rightarrow> hasLineOfSight sys pos t))
      in case visible of
           Inl err \<Rightarrow> Inl err
         | Inr b \<Rightarrow> Inr (set_value c3 ''target_visible'' (if b then 1 else 0)))"

fun alist_set :: "nat \<Rightarrow> 'a \<Rightarrow> (nat \<times> 'a) list \<Rightarrow> (nat \<times> 'a) list" where
  "alist_set k v [] = [(k, v)]"
| "alist_set k v ((k', v') # kvs) =
     (if k = k' then (k, v) # kvs else (k', v') # alist_set k v kvs)"

definition AISystem_evaluateBehaviorTree ::
  "ai_system \<Rightarrow> nat \<Rightarrow> vec3 \<Rightarrow> vec3 option \<Rightarrow> real \<Rightarrow> real
     \<Rightarrow> (js_error + bt_result) \<times> ai_system" where
  "AISystem_evaluateBehaviorTree sys entityId pos targetPosition h m =
     (case (loadedInterface sys, map_of (behaviorTrees sys) entityId,
            map_of (behaviorContexts sys) entityId) of
        (Some w, Some tree, Some c) \<Rightarrow>
          (case refreshContext sys pos targetPosition h m c of
             Inl err \<Rightarrow>
               (Inl err,
                sys\<lparr>behaviorContexts :=
                      alist_set entityId
                        (set_entity_health
                           (case targetPosition of
                              None \<Rightarrow> set_entity_position c pos
                            | Some t \<Rightarrow> set_target_position (set_entity_position c pos) t) h m)
                        (behaviorContexts sys)\<rparr>)
           | Inr c4 \<Rightarrow>
               (case WasmInterface_evaluateBehaviorTree w (Some tree) c4 of
                  (Inl err, c5, l) \<Rightarrow>
                    (Inl err,
                     sys\<lparr>behaviorContexts := alist_set entityId c5 (behaviorContexts sys),
                         ai_console := ai_console sys @ l\<rparr>)
                | (Inr r, c5, l) \<Rightarrow>
                    (Inr \<lparr>result = r, action = get_value c5 ''action'',
                          parameter = get_value c5 ''action_parameter''\<rparr>,
                     sys\<lparr>behaviorContexts := alist_set entityId c5 (behaviorContexts sys),
                         ai_console := ai_console sys @ l\<rparr>)))
      | _ \<Rightarrow> (Inr \<lparr>result = 1, action = 0, parameter = 5\<rparr>, sys))"


section \<open>Configurations used in the evaluations below\<close>

text \<open>
  The game engine as its constructor leaves it, for an enemy: an event emitter, player
  metrics with no kill counted, a particle system, no audio manager yet.
\<close>

definition GameEngine_fields :: game_engine where
  "GameEngine_fields =
     \<lparr>audioManager = False, particleSystem = True, events = True, playerMetrics = Some 0,
      sounds = [], splatters = [], emitted = []\<rparr>"

text \<open>
  What the enemy manager does to spawn an enemy at difficulty 1: construct it, attach
  the game engine; the rest of \<open>createMesh\<close> has run by the time the enemy is hit.
\<close>

definition spawn :: "type_arg \<Rightarrow> enemy" where
  "spawn t = createMesh_resume (setGameEngine GameEngine_fields (Enemy_constructor t))"

definition player :: source where
  "player = \<lparr>src_mesh = Some (Vector3 0 0 5), src_isPlayer = True, src_weapon = None\<rparr>"

text \<open>Meshes with and without geometry, and an entity standing on the ground.\<close>

definition sphereMesh :: "vec3 \<Rightarrow> mesh" where
  "sphereMesh p = \<lparr>position = p, geometry = Some 1, scale = Vector3 1 1 1\<rparr>"

definition groupMesh :: "vec3 \<Rightarrow> mesh" where
  "groupMesh p = \<lparr>position = p, geometry = None, scale = Vector3 1 1 1\<rparr>"

definition standing :: "mesh \<Rightarrow> entity" where
  "standing m =
     \<lparr>ent_mesh = Some m, ent_velocity = Some (Vector3 0 0 0), isStatic = False,
      onGround = Some True, bouncy = False, restitution = None, onCollision = True\<rparr>"

definition restingOnGround :: "entity \<Rightarrow> bool" where
  "restingOnGround e =
     (\<not> isStatic e \<and> onGround e = Some True \<and>
      (case ent_mesh e of None \<Rightarrow> False | Some m \<Rightarrow> vy (position m) = 0) \<and>
      (case ent_velocity e of None \<Rightarrow> False | Some v \<Rightarrow> vy v = 0))"

text \<open>
  Two spheres of radius 1, 1.5 units apart: next to each other in the entity list
  (\<open>scene2\<close>), and as the first and the eleventh of eleven entities (\<open>scene11\<close>).
\<close>

definition scene2 :: "entity list" where
  "scene2 = [standing (sphereMesh (Vector3 0 0 0)), standing (sphereMesh (Vector3 (3 / 2) 0 0))]"

definition scene11 :: "entity list" where
  "scene11 =
     standing (sphereMesh (Vector3 0 0 0)) # replicate 9 (standing (groupMesh (Vector3 10 0 0)))
       @ [standing (sphereMesh (Vector3 (3 / 2) 0 0))]"

definition withEntities :: "entity list \<Rightarrow> physics_system" where
  "withEntities es = PhysicsSystem_constructor\<lparr>entities := Some es\<rparr>"

text \<open>An entity released at \<open>y = 5\<close>, and the same entity on the ground.\<close>

definition dropped :: entity where
  "dropped =
     \<lparr>ent_mesh = Some (sphereMesh (Vector3 0 5 0)), ent_velocity = Some (Vector3 0 0 0),
      isStatic = False, onGround = None, bouncy = False, restitution = None,
      onCollision = False\<rparr>"

definition landed :: "bool option \<Rightarrow> entity" where
  "landed g = dropped\<lparr>ent_mesh := Some (sphereMesh (Vector3 0 0 0)), onGround := g\<rparr>"

text \<open>An AI system holding one context whose first cooldown slot has half a second left.\<close>

definition halfSecondLeft :: ai_system where
  "halfSecondLeft = AISystem_constructor
     \<lparr>behaviorContexts := [(7, set_value BehaviorContext_new (cooldownKey 1) (1 / 2))]\<rparr>"







section \<open>Facts about the enemy\<close>

lemmas enemy_defs = spawn_def createMesh_resume_def calculatePointValue_def basePoints_def
  setGameEngine_def Enemy_constructor_def Enemy_fields_def configureEnemyType_def
  resolveEnemyType_def EnemyTypes_def GRUNT_def SNIPER_def TANK_def SCOUT_def BOSS_def
  GameEngine_fields_def Let_def

lemmas damage_defs = takeDamage_def checkDead_def die_def die_engine_def getPointValue_def
  getHitDirection_def isPlayerSource_def player_def

text \<open>\<open>takeDamage\<close> subtracts the whole amount, whatever else it does.\<close>

lemma checkDead_health: "health (checkDead src e) = health e"
  by (simp add: checkDead_def die_def Let_def)

lemma takeDamage_health: "health (snd (takeDamage amount src e)) = health e - amount"
  by (simp add: takeDamage_def checkDead_health Let_def split: option.splits)

text \<open>
  At or below zero health the quick-kill test of \<open>getPointValue\<close> is false, so an
  enemy that \<open>takeDamage\<close> has just killed is worth its base value plus at most the
  awareness bonus.
\<close>

lemma getPointValue_dead:
  assumes "health e \<le> 0" "0 \<le> maxHealth e"
  shows "getPointValue e = \<lfloor>pointValue e + (if isAware e then pointValue e * (2 / 10) else 0)\<rfloor>"
proof -
  have "\<not> health e > maxHealth e * (9 / 10)"
    using assms by (simp add: not_less)
  then show ?thesis by (simp add: getPointValue_def Let_def)
qed

text \<open>The constructor returns every enemy with the three behaviour flags false.\<close>

lemma constructor_flags:
  "\<not> takeCover (Enemy_constructor t) \<and> \<not> flanking (Enemy_constructor t)
   \<and> \<not> callReinforcements (Enemy_constructor t)"
  by (simp add: Enemy_constructor_def Let_def)

text \<open>
  C1. The claim: health stays within \<open>[0, maxHealth]\<close>, and damage exceeding the
  current health leaves it clamped at 0. The code at a GRUNT with 100 health hit for
  150 with no source: the call returns normally and health is \<open>-50\<close>.
\<close>

theorem takeDamage_overkill_health_negative:
  "health (spawn (TypeName ''GRUNT'')) = 100
   \<and> fst (takeDamage 150 None (spawn (TypeName ''GRUNT''))) = None
   \<and> health (snd (takeDamage 150 None (spawn (TypeName ''GRUNT'')))) = - 50"
  by (simp add: enemy_defs damage_defs)

text \<open>
  C2. The claim: the death transition fires at most once per enemy. The code at a
  GRUNT hit twice after its health has reached zero: two \<open>enemyKilled\<close> events are
  emitted and two removals scheduled; hit twice by the player, the kill counter
  reaches 2.
\<close>

theorem takeDamage_on_dead_enemy_dies_again:
  "map_option (map ev_points \<circ> emitted)
     (gameEngine (takeDamages [(100, None), (25, None)] (spawn (TypeName ''GRUNT''))))
       = Some [50, 50]
   \<and> removalTimers (takeDamages [(100, None), (25, None)] (spawn (TypeName ''GRUNT'')))
       = [10000, 10000]
   \<and> map_option playerMetrics
       (gameEngine (takeDamages [(100, Some player), (25, Some player)] (spawn (TypeName ''GRUNT''))))
       = Some (Some 2)"
  by (simp add: enemy_defs damage_defs)

text \<open>
  C3. The claim: an aware BOSS killed near full health hands \<open>floor(500 * 1.5) = 750\<close>
  points to the scoring collaborator. The code at a BOSS made aware by a first hit of
  10 (health 490 of 500, where \<open>getPointValue\<close> is 750) and killed by the next hit:
  the event carries 600 points, since \<open>die\<close> reads the health after the subtraction.
\<close>

theorem boss_quick_kill_event_has_600_points:
  "isAware (snd (takeDamage 10 (Some player) (spawn (TypeName ''BOSS''))))
   \<and> health (snd (takeDamage 10 (Some player) (spawn (TypeName ''BOSS'')))) = 490
   \<and> maxHealth (snd (takeDamage 10 (Some player) (spawn (TypeName ''BOSS'')))) = 500
   \<and> getPointValue (snd (takeDamage 10 (Some player) (spawn (TypeName ''BOSS'')))) = 750
   \<and> map_option (map ev_points \<circ> emitted)
       (gameEngine (takeDamages [(10, Some player), (490, Some player)] (spawn (TypeName ''BOSS''))))
       = Some [600]"
  by (simp add: enemy_defs damage_defs)

text \<open>
  C4. The claim: after spawn a SNIPER has \<open>takeCover\<close>, a SCOUT has \<open>flanking\<close> and a BOSS
  has \<open>callReinforcements\<close>. The code: \<open>configureEnemyType\<close> sets the three flags, and
  the constructor assigns false to all three after calling it.
\<close>

theorem constructor_resets_behavior_flags:
  "takeCover (configureEnemyType (TypeName ''SNIPER'') (Enemy_fields (TypeName ''SNIPER'')))
   \<and> flanking (configureEnemyType (TypeName ''SCOUT'') (Enemy_fields (TypeName ''SCOUT'')))
   \<and> callReinforcements (configureEnemyType (TypeName ''BOSS'') (Enemy_fields (TypeName ''BOSS'')))
   \<and> \<not> takeCover (Enemy_constructor (TypeName ''SNIPER''))
   \<and> \<not> flanking (Enemy_constructor (TypeName ''SCOUT''))
   \<and> \<not> callReinforcements (Enemy_constructor (TypeName ''BOSS''))"
  by (simp add: enemy_defs)

text \<open>
  C10. For every enemy, \<open>takeDamage\<close> with a positive amount below the current health
  and no source returns normally and changes the health field only: awareness, state,
  target, last known target position and every other field are as before.
\<close>

theorem takeDamage_no_source_changes_health_only:
  assumes "0 < amount" "amount < health e"
  shows "takeDamage amount None e = (None, e\<lparr>health := health e - amount\<rparr>)"
  using assms by (simp add: takeDamage_def checkDead_def)

theorem takeDamage_no_source_witness:
  "(0::real) < 30 \<and> 30 < health (spawn (TypeName ''GRUNT''))
   \<and> takeDamage 30 None (spawn (TypeName ''GRUNT'')) =
       (None, (spawn (TypeName ''GRUNT''))\<lparr>health := 70\<rparr>)"
  using takeDamage_no_source_changes_health_only[of 30 "spawn (TypeName ''GRUNT'')"]
  by (simp add: enemy_defs)


section \<open>Facts about the physics step\<close>

lemma dist_spheres: "distanceTo (Vector3 0 0 0) (Vector3 (3 / 2) 0 0) = 3 / 2"
proof -
  have "sqrt ((3 / 2) * (3 / 2)) = (3 / 2 :: real)"
    by (rule real_sqrt_unique) (simp_all add: power2_eq_square)
  then show ?thesis
    by (simp add: distanceTo_def subVectors_def vlength_def Vector3_def)
qed

lemma spheres_overlap:
  "checkCollision (sphereMesh (Vector3 0 0 0)) (sphereMesh (Vector3 (3 / 2) 0 0))"
  by (simp add: checkCollision_def sphereMesh_def boundingRadius_def dist_spheres)
    (simp add: Vector3_def)

lemma group_no_collision_l: "checkCollision (groupMesh p) m = False"
  by (simp add: checkCollision_def groupMesh_def)

lemma group_no_collision_r: "checkCollision m (groupMesh p) = False"
  by (simp add: checkCollision_def groupMesh_def split: option.splits)

text \<open>
  On the software path, with no static object in the engine, an entity that rests on
  the ground is left as it is by the step: gravity pulls it below zero and the clamp
  puts it back.
\<close>

lemma nearbyObjects_no_static:
  assumes "list_all (\<lambda>e. \<not> isStatic e) es"
  shows "nearbyObjects es i m = []"
  using assms by (auto simp: nearbyObjects_def list_all_iff)

lemma applyGravityStep_resting:
  assumes "wasmInterface ps = None" "0 < gravity ps" "0 < dt" "restingOnGround e"
  shows "applyGravityStep ps dt e = (e, [])"
proof -
  obtain m v where mv: "ent_mesh e = Some m" "ent_velocity e = Some v"
    "vy (position m) = 0" "vy v = 0" "onGround e = Some True"
    using assms(4) by (auto simp: restingOnGround_def split: option.splits)
  have neg: "- (gravity ps * dt) * dt < 0"
    using assms(2,3) by (simp add: mult_neg_pos)
  show ?thesis
    using mv neg assms(1) by (simp add: applyGravityStep_def Let_def)
qed

lemma handleStatic_resting:
  assumes "list_all restingOnGround es" "restingOnGround e"
  shows "handleStaticCollisions es i e = e"
proof -
  have "list_all (\<lambda>e. \<not> isStatic e) es"
    using assms(1) by (simp add: list_all_iff restingOnGround_def)
  then show ?thesis
    using assms(2)
    by (auto simp: handleStaticCollisions_def nearbyObjects_no_static restingOnGround_def
        split: option.splits)
qed

lemma processEntity_resting:
  assumes "wasmInterface ps = None" "0 < gravity ps" "0 < dt"
    "list_all restingOnGround es" "i < length es"
  shows "processEntity ps dt i (es, l) = (es, l)"
proof -
  have r: "restingOnGround (es ! i)"
    using assms(4,5) by (simp add: list_all_length)
  show ?thesis
    using applyGravityStep_resting[OF assms(1-3) r] handleStatic_resting[OF assms(4) r]
    by (simp add: processEntity_def Let_def)
qed

lemma fold_processEntity_resting:
  assumes "wasmInterface ps = None" "0 < gravity ps" "0 < dt"
    "list_all restingOnGround es" "list_all (\<lambda>i. i < length es) batch"
  shows "fold (processEntity ps dt) batch (es, l) = (es, l)"
  using assms(5)
  by (induction batch) (simp_all add: processEntity_resting[OF assms(1-4)])

lemma processPhysicsBatch_resting:
  assumes "wasmInterface ps = None" "0 < gravity ps" "0 < dt" "entities ps = Some es"
    "list_all restingOnGround es" "list_all (\<lambda>i. i < length es) batch"
  shows "processPhysicsBatch dt batch ps =
           ps\<lparr>callbacks := callbacks ps @ handleDynamicCollisions es batch\<rparr>"
  using assms(4) fold_processEntity_resting[OF assms(1-3) assms(5,6)]
  by (simp add: processPhysicsBatch_def)

lemma fold_batches_resting:
  assumes "0 < dt" "list_all restingOnGround es"
    "list_all (list_all (\<lambda>i. i < length es)) bs"
    "wasmInterface ps = None" "0 < gravity ps" "entities ps = Some es"
  shows "fold (processPhysicsBatch dt) bs ps =
           ps\<lparr>callbacks := callbacks ps @ concat (map (handleDynamicCollisions es) bs)\<rparr>"
  using assms(3-6)
proof (induction bs arbitrary: ps)
  case Nil
  then show ?case by simp
next
  case (Cons b bs)
  have step: "processPhysicsBatch dt b ps =
      ps\<lparr>callbacks := callbacks ps @ handleDynamicCollisions es b\<rparr>"
    using Cons.prems processPhysicsBatch_resting[OF _ _ assms(1) _ assms(2)] by simp
  show ?case
    using Cons.prems by (simp add: step Cons.IH)
qed

lemma batchSlices_in_range:
  assumes "list_all P xs"
  shows "list_all (list_all P) (batchSlices xs)"
proof -
  have "list_all P (take n (drop k xs))" for n k
    using assms by (auto simp: list_all_iff dest: in_set_takeD in_set_dropD)
  then show ?thesis
    by (simp add: batchSlices_def list_all_iff)
qed

lemma physicsEntities_in_range: "list_all (\<lambda>i. i < length es) (physicsEntities es)"
  by (simp add: physicsEntities_def list_all_iff)

text \<open>
  So for entities at rest the update only reports collisions, and it reports those of
  each slice of ten on its own.
\<close>

lemma update_resting:
  assumes "0 < dt" "list_all restingOnGround es"
    "wasmInterface ps = None" "0 < gravity ps" "entities ps = Some es"
  shows "PhysicsSystem_update dt ps =
           ps\<lparr>callbacks := callbacks ps @
                concat (map (handleDynamicCollisions es) (batchSlices (physicsEntities es)))\<rparr>"
  using assms(5)
    fold_batches_resting[OF assms(1,2) batchSlices_in_range[OF physicsEntities_in_range] assms(3-5)]
  by (simp add: PhysicsSystem_update_def)

lemma physicsEntities_scene11: "physicsEntities scene11 = [0, 1, 2, 3, 4, 5, 6, 7, 8, 9, 10]"
  by (simp add: physicsEntities_def scene11_def standing_def upt_rec numeral_eq_Suc)

lemma batchSlices_11:
  "batchSlices [0, 1, 2, 3, 4, 5, 6, 7, 8, 9, 10] = [[0, 1, 2, 3, 4, 5, 6, 7, 8, 9], [10]]"
  by (simp add: batchSlices_def upt_rec)

lemma resting_scene11: "list_all restingOnGround scene11"
  by (simp add: scene11_def restingOnGround_def standing_def sphereMesh_def groupMesh_def
      Vector3_def list_all_iff)

lemma scene11_nth:
  "scene11 ! 0 = standing (sphereMesh (Vector3 0 0 0))"
  "scene11 ! 1 = standing (groupMesh (Vector3 10 0 0))"
  "scene11 ! Suc 0 = standing (groupMesh (Vector3 10 0 0))"
  "scene11 ! 2 = standing (groupMesh (Vector3 10 0 0))"
  "scene11 ! 3 = standing (groupMesh (Vector3 10 0 0))"
  "scene11 ! 4 = standing (groupMesh (Vector3 10 0 0))"
  "scene11 ! 5 = standing (groupMesh (Vector3 10 0 0))"
  "scene11 ! 6 = standing (groupMesh (Vector3 10 0 0))"
  "scene11 ! 7 = standing (groupMesh (Vector3 10 0 0))"
  "scene11 ! 8 = standing (groupMesh (Vector3 10 0 0))"
  "scene11 ! 9 = standing (groupMesh (Vector3 10 0 0))"
  "scene11 ! 10 = standing (sphereMesh (Vector3 (3 / 2) 0 0))"
  by (simp_all add: scene11_def numeral_eq_Suc)

lemma first_batch_silent:
  "handleDynamicCollisions scene11 [0, 1, 2, 3, 4, 5, 6, 7, 8, 9] = []"
  by (simp add: handleDynamicCollisions_def scene11_nth standing_def
      group_no_collision_l group_no_collision_r)

lemma second_batch_silent: "handleDynamicCollisions scene11 [10] = []"
  by (simp add: handleDynamicCollisions_def)

lemma scene11_callbacks:
  "concat (map (handleDynamicCollisions scene11) (batchSlices (physicsEntities scene11))) = []"
  unfolding physicsEntities_scene11 batchSlices_11
  by (simp only: list.map concat.simps first_batch_silent second_batch_silent append_Nil)

lemma update_scene11: "PhysicsSystem_update 1 (withEntities scene11) = withEntities scene11"
proof -
  have "PhysicsSystem_update 1 (withEntities scene11) =
      (withEntities scene11)\<lparr>callbacks := callbacks (withEntities scene11) @
         concat (map (handleDynamicCollisions scene11) (batchSlices (physicsEntities scene11)))\<rparr>"
    by (rule update_resting[OF _ resting_scene11])
      (simp_all add: withEntities_def PhysicsSystem_constructor_def)
  also have "\<dots> = withEntities scene11"
    by (simp add: scene11_callbacks withEntities_def PhysicsSystem_constructor_def)
  finally show ?thesis .
qed

lemma resting_scene2: "list_all restingOnGround scene2"
  by (simp add: scene2_def restingOnGround_def standing_def sphereMesh_def Vector3_def)

lemma update_scene2: "callbacks (PhysicsSystem_update 1 (withEntities scene2)) = [(0, 1), (1, 0)]"
proof -
  have pe: "physicsEntities scene2 = [0, 1]"
    by (simp add: physicsEntities_def scene2_def standing_def upt_rec numeral_eq_Suc)
  have bs: "batchSlices [0, 1] = [[0, 1]]"
    by (simp add: batchSlices_def upt_rec)
  have hd: "handleDynamicCollisions scene2 [0, 1] = [(0, 1), (1, 0)]"
    using spheres_overlap
    by (simp add: handleDynamicCollisions_def resolveDynamicCollision_def scene2_def standing_def)
  have cb: "concat (map (handleDynamicCollisions scene2) (batchSlices (physicsEntities scene2)))
      = [(0, 1), (1, 0)]"
    unfolding pe bs by (simp only: list.map concat.simps hd append_Nil2)
  have "PhysicsSystem_update 1 (withEntities scene2) =
      (withEntities scene2)\<lparr>callbacks := callbacks (withEntities scene2) @
         concat (map (handleDynamicCollisions scene2) (batchSlices (physicsEntities scene2)))\<rparr>"
    by (rule update_resting[OF _ resting_scene2])
      (simp_all add: withEntities_def PhysicsSystem_constructor_def)
  also have "callbacks \<dots> = [(0, 1), (1, 0)]"
    by (simp add: cb withEntities_def PhysicsSystem_constructor_def)
  finally show ?thesis .
qed

text \<open>
  C5. The claim: every unordered pair of simulated entities is checked in every tick,
  batching having no effect on which pairs are checked. The code at eleven entities
  whose first and last are overlapping spheres (radius 1 each, 1.5 apart, both with a
  callback): the update invokes no callback, since the two are in different slices;
  the same two spheres alone are reported, once for each of them.
\<close>

theorem update_skips_pairs_across_batches:
  "ent_mesh (scene11 ! 0) = Some (sphereMesh (Vector3 0 0 0))
   \<and> ent_mesh (scene11 ! 10) = Some (sphereMesh (Vector3 (3 / 2) 0 0))
   \<and> checkCollision (sphereMesh (Vector3 0 0 0)) (sphereMesh (Vector3 (3 / 2) 0 0))
   \<and> onCollision (scene11 ! 0) \<and> onCollision (scene11 ! 10)
   \<and> callbacks (PhysicsSystem_update 1 (withEntities scene11)) = []
   \<and> callbacks (PhysicsSystem_update 1 (withEntities scene2)) = [(0, 1), (1, 0)]"
  by (simp add: update_scene11 update_scene2 spheres_overlap scene11_nth)
    (simp add: standing_def withEntities_def PhysicsSystem_constructor_def)

lemmas step_defs = PhysicsSystem_update_def processPhysicsBatch_def batchSlices_def
  physicsEntities_def processEntity_def applyGravityStep_def handleStaticCollisions_def
  nearbyObjects_def handleDynamicCollisions_def PhysicsSystem_constructor_def withEntities_def
  dropped_def landed_def sphereMesh_def Vector3_def Let_def WasmInterface_applyGravity_def
  mock_applyGravity_def initFallback_def WasmInterface_constructor_def

text \<open>
  The software path on the entity released at \<open>y = 5\<close> with \<open>dt = 1\<close>: the first
  update puts it on the ground, grounded and with no vertical velocity, and every later
  update leaves it there.
\<close>

lemma software_drop_first_tick:
  "PhysicsSystem_update 1 (withEntities [dropped]) = withEntities [landed (Some True)]"
  by (simp add: step_defs)

lemma software_drop_fixed_point:
  "PhysicsSystem_update 1 (withEntities [landed (Some True)]) = withEntities [landed (Some True)]"
  by (simp add: step_defs)

lemma software_drop_converges:
  "ticks (Suc n) 1 (withEntities [dropped]) = withEntities [landed (Some True)]"
proof -
  have "ticks k 1 (withEntities [landed (Some True)]) = withEntities [landed (Some True)]" for k
    by (induction k) (simp_all add: software_drop_fixed_point)
  then show ?thesis by (simp add: software_drop_first_tick)
qed

text \<open>
  C7. The claim: on both gravity paths an entity whose integrated \<open>y\<close> falls below 0
  ends the update at \<open>y = 0\<close> with no vertical velocity and marked grounded. The code at
  the entity released at \<open>y = 5\<close>, \<open>dt = 1\<close>, no static object: without the interface it
  ends on the ground with \<open>onGround = true\<close>; with the interface that \<open>initFallback\<close>
  sets up it ends on the ground with \<open>onGround\<close> never written.
\<close>

theorem accelerated_gravity_leaves_onGround_unset:
  "PhysicsSystem_update 1 (withEntities [dropped]) = withEntities [landed (Some True)]
   \<and> PhysicsSystem_update 1
       ((withEntities [dropped])\<lparr>wasmInterface := Some (initFallback WasmInterface_constructor)\<rparr>)
     = (withEntities [landed None])\<lparr>wasmInterface := Some (initFallback WasmInterface_constructor)\<rparr>
   \<and> map_option position (ent_mesh (landed None)) = Some (Vector3 0 0 0)
   \<and> ent_velocity (landed None) = Some (Vector3 0 0 0)
   \<and> onGround (landed None) = None"
  by (simp add: step_defs)



section \<open>Facts about the AI system\<close>

text \<open>The keys of the ten cooldown slots are pairwise different.\<close>

lemma length_string_of_nat_small: "n < 10 \<Longrightarrow> length (string_of_nat n) = 1"
  by simp

lemma length_string_of_nat_10: "length (string_of_nat 10) = 2"
  by (subst string_of_nat.simps) simp

lemma char_of_inj_small:
  fixes i j :: nat
  assumes "i < 10" "j < 10" "(char_of (48 + i) :: char) = char_of (48 + j)"
  shows "i = j"
proof -
  have "of_char (char_of (48 + i) :: char) = (of_char (char_of (48 + j) :: char) :: nat)"
    using assms(3) by simp
  then have "(48 + i) mod 256 = (48 + j) mod 256"
    by (simp add: of_char_of)
  then show ?thesis using assms(1,2) by simp
qed

lemma cooldownKey_inj:
  assumes "i \<le> 10" "j \<le> 10" "cooldownKey i = cooldownKey j"
  shows "i = j"
proof -
  have eq: "string_of_nat i = string_of_nat j"
    using assms(3) by (simp add: cooldownKey_def)
  consider "i < 10" "j < 10" | "i = 10" "j < 10" | "i < 10" "j = 10" | "i = 10" "j = 10"
    using assms(1,2) by linarith
  then show ?thesis
  proof cases
    case 1
    with eq show ?thesis by (auto dest: char_of_inj_small)
  next
    case 2
    with eq have "length (string_of_nat 10) = length (string_of_nat j)" by simp
    with 2 show ?thesis by (simp only: length_string_of_nat_10 length_string_of_nat_small)
  next
    case 3
    with eq have "length (string_of_nat i) = length (string_of_nat 10)" by simp
    with 3 show ?thesis by (simp only: length_string_of_nat_10 length_string_of_nat_small)
  next
    case 4
    then show ?thesis by simp
  qed
qed

lemma get_set_value [simp]: "get_value (set_value c k v) k = v"
  by (simp add: get_value_def set_value_def)

lemma updateCooldown_same:
  "get_value (updateCooldown subtract dt i c) (cooldownKey i) =
     (if get_value c (cooldownKey i) > 0 then subtract (get_value c (cooldownKey i)) dt
      else get_value c (cooldownKey i))"
  by (simp add: updateCooldown_def get_value_def set_value_def Let_def)

lemma updateCooldown_other:
  "k \<noteq> cooldownKey j \<Longrightarrow> get_value (updateCooldown subtract dt j c) k = get_value c k"
  by (simp add: updateCooldown_def get_value_def set_value_def Let_def)

lemma fold_updateCooldown_other:
  "list_all (\<lambda>j. k \<noteq> cooldownKey j) js \<Longrightarrow>
     get_value (fold (updateCooldown subtract dt) js c) k = get_value c k"
  by (induction js arbitrary: c) (simp_all add: updateCooldown_other)

text \<open>
  The loop over the slots touches slot \<open>i\<close> exactly once: at its own turn, and the
  turns of the other slots leave it alone.
\<close>

lemma fold_updateCooldown:
  assumes "i \<le> 10" "list_all (\<lambda>j. j \<le> 10) js" "distinct js" "i \<in> set js"
  shows "get_value (fold (updateCooldown subtract dt) js c) (cooldownKey i) =
     (if get_value c (cooldownKey i) > 0 then subtract (get_value c (cooldownKey i)) dt
      else get_value c (cooldownKey i))"
  using assms(2-4)
proof (induction js arbitrary: c)
  case Nil
  then show ?case by simp
next
  case (Cons j js)
  show ?case
  proof (cases "i = j")
    case True
    have "list_all (\<lambda>j'. cooldownKey i \<noteq> cooldownKey j') js"
      using Cons.prems True assms(1) by (auto simp: list_all_iff dest: cooldownKey_inj)
    then show ?thesis
      using True by (simp add: fold_updateCooldown_other updateCooldown_same)
  next
    case False
    have "cooldownKey i \<noteq> cooldownKey j"
      using False assms(1) Cons.prems by (auto dest: cooldownKey_inj)
    then show ?thesis
      using False Cons.prems Cons.IH by (simp add: updateCooldown_other)
  qed
qed

lemma updateCooldowns_slot:
  assumes "1 \<le> i" "i \<le> 10"
  shows "get_value (updateCooldowns subtract dt c) (cooldownKey i) =
     (if get_value c (cooldownKey i) > 0 then subtract (get_value c (cooldownKey i)) dt
      else get_value c (cooldownKey i))"
  unfolding updateCooldowns_def
  using assms by (intro fold_updateCooldown) (auto simp: list_all_iff)

text \<open>
  C6, as amended. For every context the AI system holds, every slot \<open>i\<close> from 1 to 10
  and every tick: a positive value \<open>v\<close> is replaced by the difference \<open>v - dt\<close> as the
  subtraction of numbers gives it, with no clamp at zero; a value at or below zero is
  left as it is. Whenever the subtraction gives a negative number for a smaller minus
  a larger one (as the subtraction of doubles does), a positive value below \<open>dt\<close>
  becomes negative.
\<close>

theorem cooldown_stores_difference_without_clamp:
  assumes "1 \<le> i" "i \<le> 10" "n < length (behaviorContexts sys)"
  shows "let v = get_value (snd (behaviorContexts sys ! n)) (cooldownKey i);
             v' = get_value (snd (behaviorContexts (AISystem_update subtract dt sys) ! n))
                    (cooldownKey i)
         in (if 0 < v then v' = subtract v dt else v' = v)
            \<and> ((\<forall>a b. a < b \<longrightarrow> subtract a b < 0) \<longrightarrow> 0 < v \<longrightarrow> v < dt \<longrightarrow> v' < 0)"
  using assms by (simp add: AISystem_update_def updateCooldowns_slot Let_def)

text \<open>
  C6 as stated fails: a slot holding half a second holds \<open>-1/2\<close> after a tick of one
  second, not 0. One half, one and minus one half are doubles, so the subtraction of
  doubles gives what the exact one gives here.
\<close>

theorem cooldown_goes_negative:
  "map (\<lambda>kc. get_value (snd kc) (cooldownKey 1)) (behaviorContexts halfSecondLeft) = [1 / 2]
   \<and> map (\<lambda>kc. get_value (snd kc) (cooldownKey 1))
        (behaviorContexts (AISystem_update (\<lambda>a b. a - b) 1 halfSecondLeft)) = [- (1 / 2)]"
  by (simp add: AISystem_update_def halfSecondLeft_def AISystem_constructor_def
      updateCooldowns_slot)

theorem cooldown_stores_difference_witness:
  "(1::nat) \<le> 1 \<and> (1::nat) \<le> 10
   \<and> 0 < length (behaviorContexts halfSecondLeft)
   \<and> get_value (snd (behaviorContexts halfSecondLeft ! 0)) (cooldownKey 1) = 1 / 2
   \<and> (0::real) < 1 / 2 \<and> (1 / 2 :: real) < 1
   \<and> get_value (snd (behaviorContexts (AISystem_update (\<lambda>a b. a - b) 1 halfSecondLeft) ! 0))
        (cooldownKey 1) = - (1 / 2)
   \<and> get_value (snd (behaviorContexts (AISystem_update (\<lambda>a b. a - b) 1 halfSecondLeft) ! 0))
        (cooldownKey 1) < 0"
  using cooldown_stores_difference_without_clamp[of 1 0 halfSecondLeft "\<lambda>a b. a - b" 1]
  by (simp add: halfSecondLeft_def AISystem_constructor_def Let_def)

text \<open>
  What \<open>evaluateBehaviorTree\<close> returns when the interface is loaded and has a module,
  the entity has a tree with an \<open>evaluate\<close> method and a context, the context refresh
  has gone through, and \<open>evaluate\<close> throws on the refreshed context: the result code 0
  with the action and the parameter the failed call left in the context, and one
  warning on the console.
\<close>

lemma evaluate_throw_result:
  assumes "loadedInterface sys = Some w" "wasmModule w = Some m"
    "map_of (behaviorTrees sys) entityId = Some tree" "evaluate tree = Some ev"
    "map_of (behaviorContexts sys) entityId = Some c"
    "refreshContext sys pos targetPosition h mh c = Inr c4"
    "fst (call_with ev c4) = Inl err"
  shows "fst (AISystem_evaluateBehaviorTree sys entityId pos targetPosition h mh) =
           Inr \<lparr>result = 0, action = get_value (snd (call_with ev c4)) ''action'',
                 parameter = get_value (snd (call_with ev c4)) ''action_parameter''\<rparr>
       \<and> ai_console (snd (AISystem_evaluateBehaviorTree sys entityId pos targetPosition h mh)) =
           ai_console sys @ [Warn ''Error evaluating behavior tree, using fallback'']"
  using assms
  by (simp add: AISystem_evaluateBehaviorTree_def WasmInterface_evaluateBehaviorTree_def)





lemma normalize_divisor_nonzero: "normalize_divisor v \<noteq> 0"
  by (simp add: normalize_divisor_def)










end
